theory Spec2Isabelle
  imports Main "HOL-Library.Sublist"
begin

section \<open>The option registry of \<^verbatim>\<open>src/utils/printer.py\<close>\<close>

text \<open>
  The module builds four \<^verbatim>\<open>SimpleNamespace\<close> objects at import time and binds them to
  the module globals \<^verbatim>\<open>CommandArgs\<close>, \<^verbatim>\<open>DataSources\<close>, \<^verbatim>\<open>AnalysisTypes\<close> and
  \<^verbatim>\<open>DeliveryMethods\<close>. A namespace is its attribute dictionary: the keyword arguments of
  the constructor call in the order they are written. Text is the UTF-8 byte sequence of the
  Python string, as the source file stores it; every registry value is plain ASCII.
\<close>

datatype group = GCommandArgs | GDataSources | GAnalysisTypes | GDeliveryMethods

type_synonym namespace = "(string \<times> string) list"

definition CommandArgs :: namespace where
  "CommandArgs =
    [(''SOURCE'', ''--source''),
     (''ANALYSIS'', ''--analysis''),
     (''DELIVERY'', ''--delivery''),
     (''DAYS'', ''--days''),
     (''SCHEDULE'', ''--schedule''),
     (''HELP'', ''--help'')]"

definition DataSources :: namespace where
  "DataSources =
    [(''DATABASE_ENTRIES'', ''database_entries''),
     (''RECENT_DOCUMENTS'', ''recent_documents'')]"

definition AnalysisTypes :: namespace where
  "AnalysisTypes =
    [(''DOMI'', ''domi''),
     (''AGA'', ''aga'')]"

definition DeliveryMethods :: namespace where
  "DeliveryMethods =
    [(''CONSOLE'', ''console''),
     (''EMAIL_TEXT'', ''email_text''),
     (''EMAIL_HTML'', ''email_html''),
     (''FILE_TEXT'', ''file_text''),
     (''FILE_HTML'', ''file_html'')]"

text \<open>The module globals once the module is imported.\<close>

fun registry :: "group \<Rightarrow> namespace" where
  "registry GCommandArgs = CommandArgs"
| "registry GDataSources = DataSources"
| "registry GAnalysisTypes = AnalysisTypes"
| "registry GDeliveryMethods = DeliveryMethods"

datatype error =
    AttributeError group string
  | ValueError
  | OSError

text \<open>
  Attribute access \<^verbatim>\<open>Group.KEY\<close>: the value stored under the key, and
  \<^verbatim>\<open>AttributeError\<close> when the namespace has no such attribute.
\<close>

definition getattr :: "(group \<Rightarrow> namespace) \<Rightarrow> group \<Rightarrow> string \<Rightarrow> error + string" where
  "getattr glob g k =
     (case map_of (glob g) k of
        None \<Rightarrow> Inl (AttributeError g k)
      | Some v \<Rightarrow> Inr v)"

section \<open>The usage template\<close>

text \<open>
  The body of \<^verbatim>\<open>print_usage\<close> is one formatted string literal. It is a sequence of
  literal text and replacement fields \<^verbatim>\<open>{Group.KEY}\<close>. Literal text is cut at line ends
  here, so that every source line of the template is a run of segments closed by its
  newline; the value of the formatted string is the concatenation either way.
\<close>

datatype seg = Lit string | Attr group string

text \<open>Lines 37 to 42: the rest of the opening line, the title, the synopsis.\<close>

definition usage_banner :: "seg list" where
  "usage_banner =
    [Lit ''\<newline>'',
     Lit ([CHR 0xF0, CHR 0x9F, CHR 0xA5, CHR 0x92] @
         '' Pickles - Personal Insight Analytics System\<newline>''),
     Lit ''\<newline>'',
     Lit ([CHR 0xE4, CHR 0xBD, CHR 0xBF, CHR 0xE7, CHR 0x94, CHR 0xA8, CHR 0xE6, CHR 0x96, CHR
         0xB9, CHR 0xE6, CHR 0xB3, CHR 0x95] @ '':\<newline>''),
     Lit (''  python main.py ['' @ [CHR 0xE3, CHR 0x82, CHR 0xAA, CHR 0xE3, CHR 0x83, CHR 0x97,
         CHR 0xE3, CHR 0x82, CHR 0xB7, CHR 0xE3, CHR 0x83, CHR 0xA7, CHR 0xE3, CHR 0x83, CHR 0xB3]
         @ '']\<newline>''),
     Lit ''\<newline>'']"

text \<open>Lines 43 to 50: the option list, one flag a line.\<close>

definition usage_options :: "seg list" where
  "usage_options =
    [Lit ([CHR 0xE3, CHR 0x82, CHR 0xAA, CHR 0xE3, CHR 0x83, CHR 0x97, CHR 0xE3, CHR 0x82, CHR
         0xB7, CHR 0xE3, CHR 0x83, CHR 0xA7, CHR 0xE3, CHR 0x83, CHR 0xB3] @ '':\<newline>''),
     Lit ''  '',
     Attr GCommandArgs ''SOURCE'',
     Lit (''         '' @ [CHR 0xE3, CHR 0x83, CHR 0x87, CHR 0xE3, CHR 0x83, CHR 0xBC, CHR 0xE3,
         CHR 0x82, CHR 0xBF, CHR 0xE3, CHR 0x82, CHR 0xBD, CHR 0xE3, CHR 0x83, CHR 0xBC, CHR 0xE3,
         CHR 0x82, CHR 0xB9] @ '' (''),
     Attr GDataSources ''DATABASE_ENTRIES'',
     Lit '' | '',
     Attr GDataSources ''RECENT_DOCUMENTS'',
     Lit '')\<newline>'',
     Lit ''  '',
     Attr GCommandArgs ''ANALYSIS'',
     Lit (''       '' @ [CHR 0xE5, CHR 0x88, CHR 0x86, CHR 0xE6, CHR 0x9E, CHR 0x90, CHR 0xE3, CHR
         0x82, CHR 0xBF, CHR 0xE3, CHR 0x82, CHR 0xA4, CHR 0xE3, CHR 0x83, CHR 0x97] @ '' (''),
     Attr GAnalysisTypes ''DOMI'',
     Lit '' | '',
     Attr GAnalysisTypes ''AGA'',
     Lit '')\<newline>'',
     Lit ''  '',
     Attr GCommandArgs ''DELIVERY'',
     Lit (''       '' @ [CHR 0xE9, CHR 0x85, CHR 0x8D, CHR 0xE4, CHR 0xBF, CHR 0xA1, CHR 0xE6, CHR
         0x96, CHR 0xB9, CHR 0xE6, CHR 0xB3, CHR 0x95] @ '' (''),
     Attr GDeliveryMethods ''CONSOLE'',
     Lit '','',
     Attr GDeliveryMethods ''EMAIL_TEXT'',
     Lit '','',
     Attr GDeliveryMethods ''EMAIL_HTML'',
     Lit '','',
     Attr GDeliveryMethods ''FILE_TEXT'',
     Lit '','',
     Attr GDeliveryMethods ''FILE_HTML'',
     Lit '')\<newline>'',
     Lit ''  '',
     Attr GCommandArgs ''DAYS'',
     Lit (''          '' @ [CHR 0xE5, CHR 0x8F, CHR 0x96, CHR 0xE5, CHR 0xBE, CHR 0x97, CHR 0xE6,
         CHR 0x97, CHR 0xA5, CHR 0xE6, CHR 0x95, CHR 0xB0] @ '' ('' @ [CHR 0xE3, CHR 0x83, CHR
         0x87, CHR 0xE3, CHR 0x83, CHR 0x95, CHR 0xE3, CHR 0x82, CHR 0xA9, CHR 0xE3, CHR 0x83, CHR
         0xAB, CHR 0xE3, CHR 0x83, CHR 0x88] @ '': 7)\<newline>''),
     Lit ''  '',
     Attr GCommandArgs ''SCHEDULE'',
     Lit (''      '' @ [CHR 0xE5, CHR 0xAE, CHR 0x9A, CHR 0xE6, CHR 0x9C, CHR 0x9F, CHR 0xE5, CHR
         0xAE, CHR 0x9F, CHR 0xE8, CHR 0xA1, CHR 0x8C, CHR 0xE3, CHR 0x83, CHR 0xA2, CHR 0xE3, CHR
         0x83, CHR 0xBC, CHR 0xE3, CHR 0x83, CHR 0x89] @ ''\<newline>''),
     Lit ''  '',
     Attr GCommandArgs ''HELP'',
     Lit (''          '' @ [CHR 0xE3, CHR 0x81, CHR 0x93, CHR 0xE3, CHR 0x81, CHR 0xAE, CHR 0xE3,
         CHR 0x83, CHR 0x98, CHR 0xE3, CHR 0x83, CHR 0xAB, CHR 0xE3, CHR 0x83, CHR 0x97, CHR 0xE3,
         CHR 0x82, CHR 0x92, CHR 0xE8, CHR 0xA1, CHR 0xA8, CHR 0xE7, CHR 0xA4, CHR 0xBA] @
         ''\<newline>''),
     Lit ''\<newline>'']"

text \<open>Lines 51 to 61: the examples, down to the indentation before the closing quotes.\<close>

definition usage_examples :: "seg list" where
  "usage_examples =
    [Lit ([CHR 0xE4, CHR 0xBE, CHR 0x8B] @ '':\<newline>''),
     Lit ''<<<<<<< HEAD\<newline>'',
     Lit (''  python main.py                                                                # '' @
         [CHR 0xE3, CHR 0x83, CHR 0x87, CHR 0xE3, CHR 0x83, CHR 0x95, CHR 0xE3, CHR 0x82, CHR
         0xA9, CHR 0xE3, CHR 0x83, CHR 0xAB, CHR 0xE3, CHR 0x83, CHR 0x88] @ '': ''),
     Attr GDataSources ''DATABASE_ENTRIES'',
     Lit ''\<newline>'',
     Lit ''  python main.py '',
     Attr GCommandArgs ''SOURCE'',
     Lit '' '',
     Attr GDataSources ''RECENT_DOCUMENTS'',
     Lit '' '',
     Attr GCommandArgs ''ANALYSIS'',
     Lit '' '',
     Attr GAnalysisTypes ''DOMI'',
     Lit ''\<newline>'',
     Lit ''=======\<newline>'',
     Lit (''  python main.py                                                                # '' @
         [CHR 0xE3, CHR 0x83, CHR 0x87, CHR 0xE3, CHR 0x83, CHR 0x95, CHR 0xE3, CHR 0x82, CHR
         0xA9, CHR 0xE3, CHR 0x83, CHR 0xAB, CHR 0xE3, CHR 0x83, CHR 0x88] @ '': ''),
     Attr GDataSources ''RECENT_DOCUMENTS'',
     Lit ''\<newline>'',
     Lit ''  python main.py '',
     Attr GCommandArgs ''SOURCE'',
     Lit '' '',
     Attr GDataSources ''RECENT_DOCUMENTS'',
     Lit '' '',
     Attr GCommandArgs ''ANALYSIS'',
     Lit '' '',
     Attr GAnalysisTypes ''COMPREHENSIVE'',
     Lit ''\<newline>'',
     Lit (''>>>>>>> 5a55b1e (feat: '' @ [CHR 0xE3, CHR 0x83, CHR 0x87, CHR 0xE3, CHR 0x83, CHR
         0x95, CHR 0xE3, CHR 0x82, CHR 0xA9, CHR 0xE3, CHR 0x83, CHR 0xAB, CHR 0xE3, CHR 0x83, CHR
         0x88, CHR 0xE3, CHR 0x81, CHR 0xA7, CHR 0xE3, CHR 0x81, CHR 0xAF] @ ''notion'' @ [CHR
         0xE3, CHR 0x81, CHR 0xAE, CHR 0xE5, CHR 0x85, CHR 0xA8, CHR 0xE4, CHR 0xBD, CHR 0x93, CHR
         0xE3, CHR 0x81, CHR 0x8B, CHR 0xE3, CHR 0x82, CHR 0x89, CHR 0xE8, CHR 0xA8, CHR 0x98, CHR
         0xE4, CHR 0xBA, CHR 0x8B, CHR 0xE3, CHR 0x82, CHR 0x92, CHR 0xE6, CHR 0x8C, CHR 0x81, CHR
         0xE3, CHR 0x81, CHR 0xA3, CHR 0xE3, CHR 0x81, CHR 0xA6, CHR 0xE3, CHR 0x81, CHR 0x8F, CHR
         0xE3, CHR 0x82, CHR 0x8B, CHR 0xE3, CHR 0x82, CHR 0x88, CHR 0xE3, CHR 0x81, CHR 0x86, CHR
         0xE3, CHR 0x81, CHR 0xAB, CHR 0xE3, CHR 0x81, CHR 0x97, CHR 0xE3, CHR 0x81, CHR 0x9F] @
         '')\<newline>''),
     Lit ''  python main.py '',
     Attr GCommandArgs ''DELIVERY'',
     Lit '' '',
     Attr GDeliveryMethods ''CONSOLE'',
     Lit '','',
     Attr GDeliveryMethods ''FILE_HTML'',
     Lit '' '',
     Attr GCommandArgs ''DAYS'',
     Lit '' 14\<newline>'',
     Lit ''  python main.py '',
     Attr GCommandArgs ''SCHEDULE'',
     Lit ''\<newline>'',
     Lit ''        '']"



definition usage :: "seg list" where
  "usage = usage_banner @ usage_options @ usage_examples"

text \<open>
  Evaluation of the formatted string: the fields are evaluated left to right, each value is
  a string and is inserted as it is, and the first field that raises ends the evaluation.
\<close>

fun format_f :: "(group \<Rightarrow> namespace) \<Rightarrow> seg list \<Rightarrow> error + string" where
  "format_f glob [] = Inr []"
| "format_f glob (Lit t # segs) =
     (case format_f glob segs of
        Inl e \<Rightarrow> Inl e
      | Inr r \<Rightarrow> Inr (t @ r))"
| "format_f glob (Attr g k # segs) =
     (case getattr glob g k of
        Inl e \<Rightarrow> Inl e
      | Inr v \<Rightarrow>
          (case format_f glob segs of
             Inl e \<Rightarrow> Inl e
           | Inr r \<Rightarrow> Inr (v @ r)))"

section \<open>Printing\<close>

text \<open>
  What \<^verbatim>\<open>print_usage\<close> reads and changes: the module globals, which it only reads, and
  the standard output stream \<^verbatim>\<open>sys.stdout\<close>. The stream is in one of four states:
  \<^item> \<open>Open buf\<close>: a stream that accepts text; \<open>buf\<close> is the text it has accepted so far
    (whether the stream has passed it on to the device yet is not part of a call);
  \<^item> \<open>Absent\<close>: \<^verbatim>\<open>sys.stdout\<close> is \<^verbatim>\<open>None\<close>;
  \<^item> \<open>Closed\<close>: the stream object is closed;
  \<^item> \<open>Failing\<close>: the stream is open and its write fails.
\<close>

datatype stream = Open string | Absent | Closed | Failing

record process =
  globals :: "group \<Rightarrow> namespace"
  stdout :: stream

text \<open>
  \<^verbatim>\<open>print(text)\<close>: an open stream takes the text and a line end; without a stream the
  call returns and nothing is written; a closed stream raises \<^verbatim>\<open>ValueError\<close>; a write
  that fails raises \<^verbatim>\<open>OSError\<close>.
\<close>

definition print_py :: "string \<Rightarrow> process \<Rightarrow> (error + unit) \<times> process" where
  "print_py t p =
     (case stdout p of
        Open buf \<Rightarrow> (Inr (), p\<lparr>stdout := Open (buf @ t @ ''\<newline>'')\<rparr>)
      | Absent \<Rightarrow> (Inr (), p)
      | Closed \<Rightarrow> (Inl ValueError, p)
      | Failing \<Rightarrow> (Inl OSError, p))"

text \<open>
  \<^verbatim>\<open>UsagePrinter.print_usage()\<close>: the formatted string is evaluated first, then printed.
  An exception of the evaluation leaves the process as it was.
\<close>

definition print_usage :: "process \<Rightarrow> (error + unit) \<times> process" where
  "print_usage p =
     (case format_f (globals p) usage of
        Inl e \<Rightarrow> (Inl e, p)
      | Inr t \<Rightarrow> print_py t p)"

text \<open>The process right after the import, with an open standard output that holds no text.\<close>

definition initial :: process where
  "initial = \<lparr>globals = registry, stdout = Open []\<rparr>"

text \<open>The text on the standard output, and the text one call of \<open>print_usage\<close> adds to it.\<close>

definition written :: "process \<Rightarrow> string" where
  "written p = (case stdout p of Open buf \<Rightarrow> buf | Absent \<Rightarrow> [] | Closed \<Rightarrow> [] | Failing \<Rightarrow> [])"

definition output_of :: "process \<Rightarrow> string" where
  "output_of p = drop (length (written p)) (written (snd (print_usage p)))"

text \<open>The number of positions of a text at which a token starts.\<close>

fun occurrences :: "string \<Rightarrow> string \<Rightarrow> nat" where
  "occurrences tok [] = (if tok = [] then 1 else 0)"
| "occurrences tok (c # cs) = (if prefix tok (c # cs) then 1 else 0) + occurrences tok cs"

text \<open>
  A process in which the attribute that line 57 of the template asks for was set before the
  call (\<^verbatim>\<open>AnalysisTypes.COMPREHENSIVE = "comprehensive"\<close>; a namespace accepts new
  attributes), with an open standard output that holds no text. The module as written never reaches
  this state by itself; it is the state in which the evaluation of the template goes through.
\<close>

definition patched :: process where
  "patched =
     \<lparr>globals = registry(GAnalysisTypes := AnalysisTypes @ [(''COMPREHENSIVE'', ''comprehensive'')]),
      stdout = Open []\<rparr>"

text \<open>
  The lines of the template that a merge left behind, as text without their line ends:
  line 52, line 55 and line 58. The commit message of line 58 is Japanese; its characters
  are U+30C7 U+30D5 U+30A9 U+30EB U+30C8 U+3067 U+306F, then \<^verbatim>\<open>notion\<close>, then U+306E
  U+5168 U+4F53 U+304B U+3089 U+8A18 U+4E8B U+3092 U+6301 U+3063 U+3066 U+304F U+308B U+3088
  U+3046 U+306B U+3057 U+305F.
\<close>

definition marker_head :: string where
  "marker_head = ''<<<<<<< HEAD''"

definition marker_separator :: string where
  "marker_separator = ''=======''"

definition marker_incoming :: string where
  "marker_incoming =
     ''>>>>>>> 5a55b1e (feat: '' @
     [CHR 0xE3, CHR 0x83, CHR 0x87, CHR 0xE3, CHR 0x83, CHR 0x95, CHR 0xE3, CHR 0x82, CHR 0xA9,
      CHR 0xE3, CHR 0x83, CHR 0xAB, CHR 0xE3, CHR 0x83, CHR 0x88, CHR 0xE3, CHR 0x81, CHR 0xA7,
      CHR 0xE3, CHR 0x81, CHR 0xAF] @
     ''notion'' @
     [CHR 0xE3, CHR 0x81, CHR 0xAE, CHR 0xE5, CHR 0x85, CHR 0xA8, CHR 0xE4, CHR 0xBD, CHR 0x93,
      CHR 0xE3, CHR 0x81, CHR 0x8B, CHR 0xE3, CHR 0x82, CHR 0x89, CHR 0xE8, CHR 0xA8, CHR 0x98,
      CHR 0xE4, CHR 0xBA, CHR 0x8B, CHR 0xE3, CHR 0x82, CHR 0x92, CHR 0xE6, CHR 0x8C, CHR 0x81,
      CHR 0xE3, CHR 0x81, CHR 0xA3, CHR 0xE3, CHR 0x81, CHR 0xA6, CHR 0xE3, CHR 0x81, CHR 0x8F,
      CHR 0xE3, CHR 0x82, CHR 0x8B, CHR 0xE3, CHR 0x82, CHR 0x88, CHR 0xE3, CHR 0x81, CHR 0x86,
      CHR 0xE3, CHR 0x81, CHR 0xAB, CHR 0xE3, CHR 0x81, CHR 0x97, CHR 0xE3, CHR 0x81, CHR 0x9F] @
     '')''"

text \<open>
  The literal text that opens lines 53 and 56, the example without arguments: the program
  name, the padding, and the comment that announces the default (U+30C7 U+30D5 U+30A9 U+30EB
  U+30C8, a colon and a space). The replacement field of the default source follows it.
\<close>

definition no_argument_example :: string where
  "no_argument_example =
     ''  python main.py                                                                # '' @
     [CHR 0xE3, CHR 0x83, CHR 0x87, CHR 0xE3, CHR 0x83, CHR 0x95, CHR 0xE3, CHR 0x82, CHR 0xA9,
      CHR 0xE3, CHR 0x83, CHR 0xAB, CHR 0xE3, CHR 0x83, CHR 0x88] @
     '': ''"

section \<open>Evaluation of the template\<close>

lemmas usage_defs = usage_def usage_banner_def usage_options_def usage_examples_def

lemmas registry_defs = CommandArgs_def DataSources_def AnalysisTypes_def DeliveryMethods_def

text \<open>
  With the globals as the module defines them the evaluation stops at the replacement field
  \<^verbatim>\<open>{AnalysisTypes.COMPREHENSIVE}\<close> of line 57: every field before it is defined, this
  one is not.
\<close>

lemma format_f_registry:
  "format_f registry usage = Inl (AttributeError GAnalysisTypes ''COMPREHENSIVE'')"
  by (simp add: usage_defs getattr_def registry_defs)

lemma print_usage_initial:
  "print_usage initial = (Inl (AttributeError GAnalysisTypes ''COMPREHENSIVE''), initial)"
  by (simp add: print_usage_def initial_def format_f_registry)

lemma output_of_initial: "output_of initial = []"
  by (simp add: output_of_def print_usage_initial)

text \<open>The formatted string of a concatenation is the concatenation of the formatted strings.\<close>

lemma format_f_append:
  "format_f glob (xs @ ys) =
     (case format_f glob xs of
        Inl e \<Rightarrow> Inl e
      | Inr a \<Rightarrow> (case format_f glob ys of Inl e \<Rightarrow> Inl e | Inr b \<Rightarrow> Inr (a @ b)))"
proof (induction xs)
  case Nil
  show ?case by (simp split: sum.split)
next
  case (Cons s xs)
  then show ?case by (cases s) (simp_all split: sum.split)
qed

text \<open>
  When the whole template evaluates, so does every contiguous run of its segments, and the
  text of the run is a contiguous part of the text of the whole.
\<close>

lemma format_f_run:
  assumes "sublist run segs" and "format_f glob segs = Inr out"
  shows "\<exists>t. format_f glob run = Inr t \<and> sublist t out"
proof -
  from assms(1) obtain pre post where segs: "segs = pre @ run @ post"
    by (auto simp: sublist_def)
  from assms(2) obtain a t b where "format_f glob run = Inr t" and "out = a @ t @ b"
    unfolding segs by (auto simp: format_f_append split: sum.splits)
  then show ?thesis by auto
qed





section \<open>One call of \<open>print_usage\<close>\<close>

lemma print_usage_globals: "globals (snd (print_usage p)) = globals p"
  by (simp add: print_usage_def print_py_def split: sum.split stream.split)

text \<open>
  On an open stream a call whose template evaluates returns, and what it adds to the stream
  is the text of the template and a line end.
\<close>

lemma print_usage_open:
  assumes "stdout p = Open buf" and "format_f (globals p) usage = Inr t"
  shows "print_usage p = (Inr (), p\<lparr>stdout := Open (buf @ t @ ''\<newline>'')\<rparr>)"
  using assms by (simp add: print_usage_def print_py_def)

lemma output_of_open:
  assumes "stdout p = Open buf" and "format_f (globals p) usage = Inr t"
  shows "output_of p = t @ ''\<newline>''"
  using assms by (simp add: output_of_def written_def print_usage_open)

lemma print_usage_ok:
  assumes "fst (print_usage p) = Inr ()" and "stdout p = Open buf"
  shows "\<exists>t. format_f (globals p) usage = Inr t \<and> output_of p = t @ ''\<newline>''"
proof (cases "format_f (globals p) usage")
  case (Inl e)
  with assms(1) show ?thesis by (simp add: print_usage_def)
next
  case (Inr t)
  with output_of_open [OF assms(2) Inr] show ?thesis by simp
qed

lemma format_f_patched: "\<exists>t. format_f (globals patched) usage = Inr t"
  by (simp add: patched_def usage_defs getattr_def registry_defs)

lemma print_usage_patched: "fst (print_usage patched) = Inr ()"
proof -
  from format_f_patched obtain t where "format_f (globals patched) usage = Inr t" ..
  moreover have "stdout patched = Open []" by (simp add: patched_def)
  ultimately show ?thesis by (simp add: print_usage_open)
qed

lemma print_usage_run:
  assumes ok: "fst (print_usage p) = Inr ()"
    and opn: "stdout p = Open buf"
    and run: "sublist run usage"
    and eval: "format_f (globals p) run = Inr t"
  shows "sublist t (output_of p)"
proof -
  from print_usage_ok [OF ok opn] obtain u
    where u: "format_f (globals p) usage = Inr u" and out: "output_of p = u @ ''\<newline>''"
    by blast
  from format_f_run [OF run u] eval have "sublist t u" by auto
  then show ?thesis
    unfolding out by (metis sublist_order.order.trans sublist_append_rightI)
qed



lemma written_initial: "written initial = []"
  by (simp add: written_def initial_def)

lemma written_after_initial: "written (snd (print_usage initial)) = []"
  by (simp add: print_usage_initial written_initial)

lemmas marker_defs = marker_head_def marker_separator_def marker_incoming_def no_argument_example_def

lemma usage_conflict_runs:
  "sublist [Lit ([CHR 0xE4, CHR 0xBE, CHR 0x8B] @ '':\<newline>''), Lit (marker_head @ ''\<newline>''),
            Lit no_argument_example, Attr GDataSources ''DATABASE_ENTRIES'', Lit ''\<newline>''] usage \<and>
   sublist [Lit ''\<newline>'', Lit (marker_separator @ ''\<newline>''),
            Lit no_argument_example, Attr GDataSources ''RECENT_DOCUMENTS'', Lit ''\<newline>''] usage \<and>
   sublist [Lit ''\<newline>'', Lit (marker_incoming @ ''\<newline>'')] usage"
  by (simp add: usage_defs marker_defs sublist_code prefix_code)

text \<open>
  What a call that returns has written to an open stream, when the option groups are as the module defines them
  (for \<^verbatim>\<open>AnalysisTypes\<close>: when \<^verbatim>\<open>DOMI\<close> and \<^verbatim>\<open>AGA\<close> are): the option lines with the
  values of the groups, the default of seven days, and the example lines of the template.
\<close>

lemma returned_usage_text:
  assumes ok: "fst (print_usage p) = Inr ()"
    and opn: "stdout p = Open buf"
    and ca: "globals p GCommandArgs = CommandArgs"
    and ds: "globals p GDataSources = DataSources"
    and dm: "globals p GDeliveryMethods = DeliveryMethods"
    and domi: "map_of (globals p GAnalysisTypes) ''DOMI'' = Some ''domi''"
    and aga: "map_of (globals p GAnalysisTypes) ''AGA'' = Some ''aga''"
  shows "sublist ''  --source'' (output_of p)"
    and "sublist ''database_entries | recent_documents)\<newline>'' (output_of p)"
    and "sublist ''domi | aga)\<newline>'' (output_of p)"
    and "sublist ''console,email_text,email_html,file_text,file_html)\<newline>'' (output_of p)"
    and "sublist (''  --days          '' @
           [CHR 0xE5, CHR 0x8F, CHR 0x96, CHR 0xE5, CHR 0xBE, CHR 0x97, CHR 0xE6, CHR 0x97,
            CHR 0xA5, CHR 0xE6, CHR 0x95, CHR 0xB0] @ '' ('' @
           [CHR 0xE3, CHR 0x83, CHR 0x87, CHR 0xE3, CHR 0x83, CHR 0x95, CHR 0xE3, CHR 0x82,
            CHR 0xA9, CHR 0xE3, CHR 0x83, CHR 0xAB, CHR 0xE3, CHR 0x83, CHR 0x88] @
           '': 7)\<newline>'') (output_of p)"
    and "sublist ''  python main.py --source recent_documents --analysis domi\<newline>'' (output_of p)"
    and "sublist (''  python main.py --delivery console,file_html --days 14\<newline>'' @
                  ''  python main.py --schedule\<newline>'') (output_of p)"
proof -
  note vals = getattr_def ca ds dm domi aga registry_defs
  show "sublist ''  --source'' (output_of p)"
    by (rule print_usage_run [OF ok opn, where run = "[Lit ''  '', Attr GCommandArgs ''SOURCE'']"])
       (simp_all add: vals usage_defs sublist_code prefix_code)
  show "sublist ''database_entries | recent_documents)\<newline>'' (output_of p)"
    by (rule print_usage_run [OF ok opn, where run =
          "[Attr GDataSources ''DATABASE_ENTRIES'', Lit '' | '',
            Attr GDataSources ''RECENT_DOCUMENTS'', Lit '')\<newline>'']"])
       (simp_all add: vals usage_defs sublist_code prefix_code)
  show "sublist ''domi | aga)\<newline>'' (output_of p)"
    by (rule print_usage_run [OF ok opn, where run =
          "[Attr GAnalysisTypes ''DOMI'', Lit '' | '', Attr GAnalysisTypes ''AGA'', Lit '')\<newline>'']"])
       (simp_all add: vals usage_defs sublist_code prefix_code)
  show "sublist ''console,email_text,email_html,file_text,file_html)\<newline>'' (output_of p)"
    by (rule print_usage_run [OF ok opn, where run =
          "[Attr GDeliveryMethods ''CONSOLE'', Lit '','', Attr GDeliveryMethods ''EMAIL_TEXT'',
            Lit '','', Attr GDeliveryMethods ''EMAIL_HTML'', Lit '','',
            Attr GDeliveryMethods ''FILE_TEXT'', Lit '','', Attr GDeliveryMethods ''FILE_HTML'',
            Lit '')\<newline>'']"])
       (simp_all add: vals usage_defs sublist_code prefix_code)
  show "sublist (''  --days          '' @
           [CHR 0xE5, CHR 0x8F, CHR 0x96, CHR 0xE5, CHR 0xBE, CHR 0x97, CHR 0xE6, CHR 0x97,
            CHR 0xA5, CHR 0xE6, CHR 0x95, CHR 0xB0] @ '' ('' @
           [CHR 0xE3, CHR 0x83, CHR 0x87, CHR 0xE3, CHR 0x83, CHR 0x95, CHR 0xE3, CHR 0x82,
            CHR 0xA9, CHR 0xE3, CHR 0x83, CHR 0xAB, CHR 0xE3, CHR 0x83, CHR 0x88] @
           '': 7)\<newline>'') (output_of p)"
    by (rule print_usage_run [OF ok opn, where run =
          "[Lit ''  '', Attr GCommandArgs ''DAYS'',
            Lit (''          '' @
              [CHR 0xE5, CHR 0x8F, CHR 0x96, CHR 0xE5, CHR 0xBE, CHR 0x97, CHR 0xE6, CHR 0x97,
               CHR 0xA5, CHR 0xE6, CHR 0x95, CHR 0xB0] @ '' ('' @
              [CHR 0xE3, CHR 0x83, CHR 0x87, CHR 0xE3, CHR 0x83, CHR 0x95, CHR 0xE3, CHR 0x82,
               CHR 0xA9, CHR 0xE3, CHR 0x83, CHR 0xAB, CHR 0xE3, CHR 0x83, CHR 0x88] @
              '': 7)\<newline>'')]"])
       (simp_all add: vals usage_defs sublist_code prefix_code)
  show "sublist ''  python main.py --source recent_documents --analysis domi\<newline>'' (output_of p)"
    by (rule print_usage_run [OF ok opn, where run =
          "[Lit ''  python main.py '', Attr GCommandArgs ''SOURCE'', Lit '' '',
            Attr GDataSources ''RECENT_DOCUMENTS'', Lit '' '', Attr GCommandArgs ''ANALYSIS'',
            Lit '' '', Attr GAnalysisTypes ''DOMI'', Lit ''\<newline>'']"])
       (simp_all add: vals usage_defs sublist_code prefix_code)
  show "sublist (''  python main.py --delivery console,file_html --days 14\<newline>'' @
                  ''  python main.py --schedule\<newline>'') (output_of p)"
    by (rule print_usage_run [OF ok opn, where run =
          "[Lit ''  python main.py '', Attr GCommandArgs ''DELIVERY'', Lit '' '',
            Attr GDeliveryMethods ''CONSOLE'', Lit '','', Attr GDeliveryMethods ''FILE_HTML'',
            Lit '' '', Attr GCommandArgs ''DAYS'', Lit '' 14\<newline>'',
            Lit ''  python main.py '', Attr GCommandArgs ''SCHEDULE'', Lit ''\<newline>'']"])
       (simp_all add: vals usage_defs sublist_code prefix_code)
qed

section \<open>The claims\<close>

text \<open>
  Claim C1. With the standard output available \<open>print_usage\<close> is said to build the text,
  write it and return, an I/O error being its only failure. In the module as written the
  call raises \<^verbatim>\<open>AttributeError\<close> for \<^verbatim>\<open>AnalysisTypes.COMPREHENSIVE\<close> and leaves the
  process as it was, whatever the state of the stream: the stream is never reached.
\<close>

theorem print_usage_raises_attribute_error:
  "stdout initial = Open [] \<and>
   print_usage initial = (Inl (AttributeError GAnalysisTypes ''COMPREHENSIVE''), initial) \<and>
   print_usage \<lparr>globals = registry, stdout = out\<rparr> =
     (Inl (AttributeError GAnalysisTypes ''COMPREHENSIVE''), \<lparr>globals = registry, stdout = out\<rparr>)"
  by (simp add: print_usage_def initial_def format_f_registry)

text \<open>
  Claim C2. \<^verbatim>\<open>AnalysisTypes\<close> has exactly the keys \<^verbatim>\<open>DOMI\<close> and \<^verbatim>\<open>AGA\<close>, bound to
  \<^verbatim>\<open>"domi"\<close> and \<^verbatim>\<open>"aga"\<close>; it has no key \<^verbatim>\<open>COMPREHENSIVE\<close>, and the usage template
  has the replacement field \<^verbatim>\<open>{AnalysisTypes.COMPREHENSIVE}\<close>.
\<close>

theorem AnalysisTypes_keys:
  "map fst AnalysisTypes = [''DOMI'', ''AGA''] \<and>
   dom (map_of AnalysisTypes) = {''DOMI'', ''AGA''} \<and>
   getattr registry GAnalysisTypes ''DOMI'' = Inr ''domi'' \<and>
   getattr registry GAnalysisTypes ''AGA'' = Inr ''aga'' \<and>
   getattr registry GAnalysisTypes ''COMPREHENSIVE'' =
     Inl (AttributeError GAnalysisTypes ''COMPREHENSIVE'') \<and>
   Attr GAnalysisTypes ''COMPREHENSIVE'' \<in> set usage"
proof -
  have "dom (map_of AnalysisTypes) = {''DOMI'', ''AGA''}"
    by (auto simp: AnalysisTypes_def dom_def)
  moreover have "Attr GAnalysisTypes ''COMPREHENSIVE'' \<in> set usage"
    by (simp add: usage_defs)
  ultimately show ?thesis
    by (simp add: getattr_def AnalysisTypes_def)
qed




text \<open>
  Claim C4. The text that a call of \<open>print_usage\<close> writes is said to contain each value of
  \<^verbatim>\<open>DataSources\<close> and of \<^verbatim>\<open>AnalysisTypes\<close> at least once. After the import the call
  raises before it prints: nothing is on the standard output and none of the four values
  occurs.
\<close>

theorem print_usage_writes_no_values:
  "written (snd (print_usage initial)) = [] \<and>
   occurrences ''database_entries'' (output_of initial) = 0 \<and>
   occurrences ''recent_documents'' (output_of initial) = 0 \<and>
   occurrences ''domi'' (output_of initial) = 0 \<and>
   occurrences ''aga'' (output_of initial) = 0"
  by (simp add: output_of_initial written_after_initial)

text \<open>
  Claim C5. The text that a call of \<open>print_usage\<close> writes is said to contain each value of
  \<^verbatim>\<open>DeliveryMethods\<close>, and \<^verbatim>\<open>console,file_html\<close> in the delivery example. After the
  import the call raises before it prints: none of them occurs.
\<close>

theorem print_usage_writes_no_delivery:
  "written (snd (print_usage initial)) = [] \<and>
   occurrences ''console'' (output_of initial) = 0 \<and>
   occurrences ''email_text'' (output_of initial) = 0 \<and>
   occurrences ''email_html'' (output_of initial) = 0 \<and>
   occurrences ''file_text'' (output_of initial) = 0 \<and>
   occurrences ''file_html'' (output_of initial) = 0 \<and>
   occurrences ''console,file_html'' (output_of initial) = 0"
  by (simp add: output_of_initial written_after_initial)

text \<open>
  Claim C6. The text that a call of \<open>print_usage\<close> writes is said to contain \<^verbatim>\<open>--days\<close>,
  later a \<^verbatim>\<open>7\<close>, and \<^verbatim>\<open>--schedule\<close>. After the import the call raises before it
  prints: none of the three occurs.
\<close>

theorem print_usage_writes_no_days:
  "written (snd (print_usage initial)) = [] \<and>
   occurrences ''--days'' (output_of initial) = 0 \<and>
   occurrences ''7'' (output_of initial) = 0 \<and>
   occurrences ''--schedule'' (output_of initial) = 0"
  by (simp add: output_of_initial written_after_initial)

text \<open>
  Claim C7. Two calls of \<open>print_usage\<close> with the globals in the same state, whatever text
  the open standard output of either holds already (or with the stream in the same state
  otherwise), end the same way and add the same text to the standard output. In particular a
  call made right after another, on the process the first one leaves, ends as the first did
  and adds the same text.
\<close>

theorem print_usage_deterministic:
  assumes same: "globals p = globals q"
    and streams: "(\<exists>a b. stdout p = Open a \<and> stdout q = Open b) \<or> stdout p = stdout q"
  shows "fst (print_usage p) = fst (print_usage q) \<and>
         output_of p = output_of q \<and>
         globals (snd (print_usage p)) = globals (snd (print_usage q)) \<and>
         fst (print_usage (snd (print_usage p))) = fst (print_usage p) \<and>
         output_of (snd (print_usage p)) = output_of p"
proof -
  have again: "fst (print_usage (snd (print_usage p))) = fst (print_usage p) \<and>
         output_of (snd (print_usage p)) = output_of p"
    by (auto simp: print_usage_def print_py_def output_of_def written_def
             split: sum.splits stream.splits)
  have two: "fst (print_usage p) = fst (print_usage q) \<and> output_of p = output_of q"
    using streams
  proof
    assume "\<exists>a b. stdout p = Open a \<and> stdout q = Open b"
    then obtain a b where "stdout p = Open a" and "stdout q = Open b" by blast
    with same show ?thesis
      by (auto simp: print_usage_def print_py_def output_of_def written_def
               split: sum.splits)
  next
    assume "stdout p = stdout q"
    with same show ?thesis
      by (auto simp: print_usage_def print_py_def output_of_def written_def
               split: sum.splits stream.splits)
  qed
  from two again same show ?thesis
    by (simp add: print_usage_globals)
qed

theorem print_usage_deterministic_witness:
  "globals patched = globals (patched\<lparr>stdout := Open ''earlier output''\<rparr>) \<and>
   stdout patched = Open [] \<and>
   stdout (patched\<lparr>stdout := Open ''earlier output''\<rparr>) = Open ''earlier output'' \<and>
   fst (print_usage patched) = Inr () \<and>
   fst (print_usage patched) = fst (print_usage (patched\<lparr>stdout := Open ''earlier output''\<rparr>)) \<and>
   output_of patched = output_of (patched\<lparr>stdout := Open ''earlier output''\<rparr>) \<and>
   globals initial = globals (initial\<lparr>stdout := Open ''earlier output''\<rparr>) \<and>
   fst (print_usage initial) = fst (print_usage (initial\<lparr>stdout := Open ''earlier output''\<rparr>)) \<and>
   output_of initial = output_of (initial\<lparr>stdout := Open ''earlier output''\<rparr>)"
proof -
  have g: "globals patched = globals (patched\<lparr>stdout := Open ''earlier output''\<rparr>)"
    by simp
  have s: "(\<exists>a b. stdout patched = Open a \<and>
              stdout (patched\<lparr>stdout := Open ''earlier output''\<rparr>) = Open b) \<or>
           stdout patched = stdout (patched\<lparr>stdout := Open ''earlier output''\<rparr>)"
    by (simp add: patched_def)
  have g0: "globals initial = globals (initial\<lparr>stdout := Open ''earlier output''\<rparr>)"
    by simp
  have s0: "(\<exists>a b. stdout initial = Open a \<and>
              stdout (initial\<lparr>stdout := Open ''earlier output''\<rparr>) = Open b) \<or>
           stdout initial = stdout (initial\<lparr>stdout := Open ''earlier output''\<rparr>)"
    by (simp add: initial_def)
  have "stdout patched = Open []" by (simp add: patched_def)
  with print_usage_deterministic [OF g s] print_usage_deterministic [OF g0 s0]
    print_usage_patched
  show ?thesis by simp
qed

text \<open>
  Claim C8. In each of the four option groups the keys are distinct, the values are distinct
  and no value is the empty string; a call of \<open>print_usage\<close> leaves the globals as they
  were, so an attribute read after it gives what it gave before.
\<close>

theorem option_groups_fixed:
  "distinct (map fst (registry g)) \<and>
   distinct (map snd (registry g)) \<and>
   [] \<notin> set (map snd (registry g)) \<and>
   globals (snd (print_usage p)) = globals p \<and>
   getattr (globals (snd (print_usage p))) g k = getattr (globals p) g k"
proof -
  have "distinct (map fst (registry g)) \<and> distinct (map snd (registry g)) \<and>
        [] \<notin> set (map snd (registry g))"
    by (cases g) (simp_all add: registry_defs)
  then show ?thesis
    by (simp add: print_usage_globals getattr_def)
qed

text \<open>
  Claim C9. The examples section of the text that a call of \<open>print_usage\<close> writes is said to
  show the program name alone with its default source, and three more invocations. After
  the import the call raises \<^verbatim>\<open>AttributeError\<close> before it prints: the standard output
  holds no example line at all.
\<close>

theorem print_usage_writes_no_examples:
  "fst (print_usage initial) = Inl (AttributeError GAnalysisTypes ''COMPREHENSIVE'') \<and>
   written (snd (print_usage initial)) = [] \<and>
   occurrences ''python main.py'' (output_of initial) = 0 \<and>
   occurrences ''database_entries'' (output_of initial) = 0"
  by (simp add: output_of_initial print_usage_initial written_initial)

text \<open>
  Claim C10. The template holds the three marker lines of an unresolved merge, each a line
  of its own, and after the first two the example without arguments of either branch, one
  with \<^verbatim>\<open>DataSources.DATABASE_ENTRIES\<close> and one with \<^verbatim>\<open>DataSources.RECENT_DOCUMENTS\<close>.
  Whenever a call of \<open>print_usage\<close> on an open stream returns, with \<^verbatim>\<open>DataSources\<close> as
  the module defines it, the text it has written contains the three marker lines and both example lines as
  they stand.
\<close>

theorem usage_conflict_markers:
  assumes ok: "fst (print_usage p) = Inr ()"
    and opn: "stdout p = Open buf"
    and ds: "globals p GDataSources = DataSources"
  shows "sublist [Lit ([CHR 0xE4, CHR 0xBE, CHR 0x8B] @ '':\<newline>''), Lit (marker_head @ ''\<newline>''),
                  Lit no_argument_example, Attr GDataSources ''DATABASE_ENTRIES'', Lit ''\<newline>''] usage \<and>
         sublist [Lit ''\<newline>'', Lit (marker_separator @ ''\<newline>''),
                  Lit no_argument_example, Attr GDataSources ''RECENT_DOCUMENTS'', Lit ''\<newline>''] usage \<and>
         sublist [Lit ''\<newline>'', Lit (marker_incoming @ ''\<newline>'')] usage \<and>
         sublist (''\<newline>'' @ marker_head @ ''\<newline>'' @
                  no_argument_example @ ''database_entries\<newline>'') (output_of p) \<and>
         sublist (''\<newline>'' @ marker_separator @ ''\<newline>'' @
                  no_argument_example @ ''recent_documents\<newline>'') (output_of p) \<and>
         sublist (''\<newline>'' @ marker_incoming @ ''\<newline>'') (output_of p)"
proof -
  note runs = usage_conflict_runs
  have "format_f (globals p)
          [Lit ([CHR 0xE4, CHR 0xBE, CHR 0x8B] @ '':\<newline>''), Lit (marker_head @ ''\<newline>''),
           Lit no_argument_example, Attr GDataSources ''DATABASE_ENTRIES'', Lit ''\<newline>'']
        = Inr (([CHR 0xE4, CHR 0xBE, CHR 0x8B] @ '':'') @ (''\<newline>'' @ marker_head @ ''\<newline>'' @
                  no_argument_example @ ''database_entries\<newline>''))"
    by (simp add: getattr_def ds DataSources_def)
  from print_usage_run [OF ok opn _ this] runs
  have "sublist (([CHR 0xE4, CHR 0xBE, CHR 0x8B] @ '':'') @ (''\<newline>'' @ marker_head @ ''\<newline>'' @
                  no_argument_example @ ''database_entries\<newline>'')) (output_of p)"
    by blast
  then have head: "sublist (''\<newline>'' @ marker_head @ ''\<newline>'' @
                  no_argument_example @ ''database_entries\<newline>'') (output_of p)"
    by (rule sublist_order.order.trans [OF sublist_append_leftI])
  have "format_f (globals p)
          [Lit ''\<newline>'', Lit (marker_separator @ ''\<newline>''),
           Lit no_argument_example, Attr GDataSources ''RECENT_DOCUMENTS'', Lit ''\<newline>'']
        = Inr (''\<newline>'' @ marker_separator @ ''\<newline>'' @
                  no_argument_example @ ''recent_documents\<newline>'')"
    by (simp add: getattr_def ds DataSources_def)
  from print_usage_run [OF ok opn _ this] runs
  have separator: "sublist (''\<newline>'' @ marker_separator @ ''\<newline>'' @
                  no_argument_example @ ''recent_documents\<newline>'') (output_of p)"
    by blast
  have "format_f (globals p) [Lit ''\<newline>'', Lit (marker_incoming @ ''\<newline>'')]
        = Inr (''\<newline>'' @ marker_incoming @ ''\<newline>'')"
    by simp
  from print_usage_run [OF ok opn _ this] runs
  have incoming: "sublist (''\<newline>'' @ marker_incoming @ ''\<newline>'') (output_of p)"
    by blast
  from runs head separator incoming show ?thesis by blast
qed

theorem usage_conflict_markers_witness:
  "fst (print_usage patched) = Inr () \<and>
   stdout patched = Open [] \<and>
   globals patched GDataSources = DataSources \<and>
   sublist (''\<newline>'' @ marker_head @ ''\<newline>'' @
            no_argument_example @ ''database_entries\<newline>'') (output_of patched) \<and>
   sublist (''\<newline>'' @ marker_separator @ ''\<newline>'' @
            no_argument_example @ ''recent_documents\<newline>'') (output_of patched) \<and>
   sublist (''\<newline>'' @ marker_incoming @ ''\<newline>'') (output_of patched)"
proof -
  have ds: "globals patched GDataSources = DataSources"
    by (simp add: patched_def)
  have opn: "stdout patched = Open []"
    by (simp add: patched_def)
  from usage_conflict_markers [OF print_usage_patched opn ds] print_usage_patched opn ds
  show ?thesis by blast
qed

end
